theory Spec2Isabelle
  imports Main
begin

section \<open>Python values: exceptions, strings, integers\<close>

text \<open>
  The exceptions that \<^verbatim>\<open>VariantPosition\<close> can raise, as values. \<^verbatim>\<open>ValueError\<close>
  carries its message; \<^verbatim>\<open>TypeError\<close> is what Python raises when \<^verbatim>\<open>None\<close> is
  subscripted, subtracted or compared with \<^verbatim>\<open><\<close>, and the interpreter's message
  for it is left out.
\<close>

datatype error = ValueError string | TypeError

text \<open>\<^verbatim>\<open>s.startswith(p)\<close>.\<close>

definition startswith :: "string \<Rightarrow> string \<Rightarrow> bool" where
  "startswith s p = (take (length p) s = p)"

text \<open>
  \<^verbatim>\<open>s.split(sep)\<close> for a separator of one character: the pieces between the
  occurrences of the separator, in order; a string without the separator is one piece.
\<close>

fun split :: "string \<Rightarrow> char \<Rightarrow> string list" where
  "split [] sep = [[]]"
| "split (c # cs) sep =
     (if c = sep then [] # split cs sep
      else (case split cs sep of
              [] \<Rightarrow> [[c]]
            | p # ps \<Rightarrow> (c # p) # ps))"

definition is_digit :: "char \<Rightarrow> bool" where
  "is_digit c = (c \<in> set ''0123456789'')"

definition digit_val :: "char \<Rightarrow> int" where
  "digit_val c = int (of_char c) - 48"

text \<open>
  \<^verbatim>\<open>int(x)\<close> on a string: the value of a non-empty run of ASCII decimal digits, and
  \<^verbatim>\<open>ValueError\<close> on anything else. (Python also accepts surrounding white space, a
  sign and underscores between digits; the constructor never passes such a string, see
  \<open>init_cases\<close> below: every string it converts is a run of digits.)
\<close>

definition decimal :: "string \<Rightarrow> int" where
  "decimal x = foldl (\<lambda>a c. 10 * a + digit_val c) 0 x"

definition int_py :: "string \<Rightarrow> error + int" where
  "int_py x =
     (if x \<noteq> [] \<and> list_all is_digit x
      then Inr (decimal x)
      else Inl (ValueError (''invalid literal for int() with base 10: '' @ [CHR 0x27] @ x @ [CHR 0x27])))"

text \<open>
  \<^verbatim>\<open>a, b = (int(x) for x in parts)\<close>: the generator is consumed from the left, so the
  first piece that is not a number raises; after that the number of pieces must be two.
\<close>

fun unpack2 :: "string list \<Rightarrow> error + int \<times> int" where
  "unpack2 [] = Inl (ValueError ''not enough values to unpack (expected 2, got 0)'')"
| "unpack2 [x] =
     (case int_py x of
        Inl e \<Rightarrow> Inl e
      | Inr a \<Rightarrow> Inl (ValueError ''not enough values to unpack (expected 2, got 1)''))"
| "unpack2 (x # y # rest) =
     (case int_py x of
        Inl e \<Rightarrow> Inl e
      | Inr a \<Rightarrow>
          (case int_py y of
             Inl e \<Rightarrow> Inl e
           | Inr b \<Rightarrow>
               (case rest of
                  [] \<Rightarrow> Inr (a, b)
                | z # _ \<Rightarrow>
                    (case int_py z of
                       Inl e \<Rightarrow> Inl e
                     | Inr c \<Rightarrow> Inl (ValueError ''too many values to unpack (expected 2)'')))))"

text \<open>
  \<^verbatim>\<open>x < y\<close> on two \<^verbatim>\<open>Optional[int]\<close> values: Python orders two integers and raises
  \<^verbatim>\<open>TypeError\<close> as soon as one side is \<^verbatim>\<open>None\<close>.
\<close>

fun py_lt :: "int option \<Rightarrow> int option \<Rightarrow> error + bool" where
  "py_lt (Some x) (Some y) = Inr (x < y)"
| "py_lt _ _ = Inl TypeError"

section \<open>The pattern and its matcher\<close>

text \<open>
  The fragment of Python's \<^verbatim>\<open>re\<close> syntax that \<^verbatim>\<open>pos_extended\<close> is written in: a
  character class \<^verbatim>\<open>[...]\<close>, concatenation, alternation \<^verbatim>\<open>|\<close>, a greedy starred
  class \<^verbatim>\<open>[...]*\<close> and a named group \<^verbatim>\<open>(?P<name>...)\<close>.
\<close>

datatype regex =
    Cls "char list"
  | Cat regex regex
  | Alt regex regex
  | Star_cls "char list"
  | Group string regex

text \<open>
  A backtracking matcher, as \<^verbatim>\<open>re\<close> is one. A state is the input still to be read
  and the groups captured so far; \<open>rmatch r st\<close> lists every state in which a match of
  \<open>r\<close> started in \<open>st\<close> can end, in the order in which the engine tries them: the left
  alternative before the right one, the longest repetition first.
\<close>

type_synonym mstate = "string \<times> (string \<times> string) list"

fun rmatch :: "regex \<Rightarrow> mstate \<Rightarrow> mstate list" where
  "rmatch (Cls cs) (s, g) =
     (case s of
        [] \<Rightarrow> []
      | c # rest \<Rightarrow> if c \<in> set cs then [(rest, g)] else [])"
| "rmatch (Cat r1 r2) st = concat (map (rmatch r2) (rmatch r1 st))"
| "rmatch (Alt r1 r2) st = rmatch r1 st @ rmatch r2 st"
| "rmatch (Star_cls cs) (s, g) =
     (case s of
        [] \<Rightarrow> [(s, g)]
      | c # rest \<Rightarrow> if c \<in> set cs then rmatch (Star_cls cs) (rest, g) @ [(s, g)] else [(s, g)])"
| "rmatch (Group name r) (s, g) =
     map (\<lambda>(rest, g'). (rest, (name, take (length s - length rest) s) # g')) (rmatch r (s, g))"

text \<open>
  \<^verbatim>\<open>re.compile(p).fullmatch(s)\<close> followed by \<^verbatim>\<open>.groupdict()\<close>: the first way of
  matching that consumes the whole string, as the dictionary from group names to the
  captured text (\<open>None\<close> for a group that took no part). No such way: \<open>None\<close>, the
  \<^verbatim>\<open>None\<close> on which \<^verbatim>\<open>.groupdict()\<close> raises \<^verbatim>\<open>AttributeError\<close>.
\<close>

definition fullmatch :: "regex \<Rightarrow> string \<Rightarrow> (string \<rightharpoonup> string) option" where
  "fullmatch r s =
     (case filter (\<lambda>(rest, g). rest = []) (rmatch r (s, [])) of
        [] \<Rightarrow> None
      | (rest, g) # _ \<Rightarrow> Some (map_of g))"

text \<open>
  Modelled from the spec: \<^verbatim>\<open>pos\<close> is imported from \<^verbatim>\<open>mavehgvs.patterns.shared\<close>,
  which is not among the sources. The specification describes it as the digit
  sub-pattern that disallows leading zeros in multi-digit runs and disallows an unsigned
  zero: a digit from 1 to 9 followed by any number of digits, \<^verbatim>\<open>[1-9][0-9]*\<close>.
\<close>

definition pos :: regex where
  "pos = Cat (Cls ''123456789'') (Star_cls ''0123456789'')"

definition pos_extended :: regex where
  "pos_extended =
     Alt (Group ''position'' pos)
    (Alt (Group ''position_intron'' (Cat pos (Cat (Cls ''+-'') pos)))
    (Alt (Group ''position_utr'' (Cat (Cls ''*-'') pos))
         (Group ''position_utr_intron'' (Cat (Cls ''*-'') (Cat pos (Cat (Cls ''+-'') pos))))))"

section \<open>The position model\<close>

record VariantPosition =
  position :: "int option"
  intronic_position :: "int option"
  utr :: "string option"
  utr_position :: "int option"

text \<open>
  \<^verbatim>\<open>VariantPosition.__init__\<close>. The four fields start as \<^verbatim>\<open>None\<close>; the first group
  of the dictionary that is not \<^verbatim>\<open>None\<close> decides which of them are set. Every
  \<^verbatim>\<open>raise\<close> of the source is a branch, and so is the subscript
  \<^verbatim>\<open>gdict["position_intron"][1:]\<close> of the last \<^verbatim>\<open>elif\<close>, which raises
  \<^verbatim>\<open>TypeError\<close> when that group is \<^verbatim>\<open>None\<close>.
\<close>

definition VariantPosition_init :: "string \<Rightarrow> error + VariantPosition" where
  "VariantPosition_init pos_str =
     (case fullmatch pos_extended pos_str of
        None \<Rightarrow>
          Inl (ValueError (''invalid variant position string '' @ [CHR 0x27] @ pos_str @ [CHR 0x27]))
      | Some gdict \<Rightarrow>
          (let self = \<lparr>position = None, intronic_position = None, utr = None, utr_position = None\<rparr>
           in
           case gdict ''position'' of
             Some p \<Rightarrow>
               (case int_py p of
                  Inl e \<Rightarrow> Inl e
                | Inr n \<Rightarrow> Inr (self\<lparr>position := Some n\<rparr>))
           | None \<Rightarrow>
           (case gdict ''position_intron'' of
             Some pi \<Rightarrow>
               if CHR ''+'' \<in> set pi then
                 (case unpack2 (split pi CHR ''+'') of
                    Inl e \<Rightarrow> Inl e
                  | Inr (a, b) \<Rightarrow> Inr (self\<lparr>position := Some a, intronic_position := Some b\<rparr>))
               else if CHR ''-'' \<in> set pi then
                 (case unpack2 (split pi CHR ''-'') of
                    Inl e \<Rightarrow> Inl e
                  | Inr (a, b) \<Rightarrow>
                      Inr (self\<lparr>position := Some a, intronic_position := Some (b * - 1)\<rparr>))
               else Inl (ValueError ''unexpected intronic position separator'')
           | None \<Rightarrow>
           (case gdict ''position_utr'' of
             Some pu \<Rightarrow>
               (case (if startswith pu ''*'' then Inr ''3p''
                      else if startswith pu ''-'' then Inr ''5p''
                      else Inl (ValueError ''unexpected UTR symbol'')) of
                  Inl e \<Rightarrow> Inl e
                | Inr side \<Rightarrow>
                    (case int_py (drop 1 pu) of
                       Inl e \<Rightarrow> Inl e
                     | Inr n \<Rightarrow> Inr (self\<lparr>utr := Some side, utr_position := Some n\<rparr>)))
           | None \<Rightarrow>
           (case gdict ''position_utr_intron'' of
             Some pui \<Rightarrow>
               (case (if startswith pui ''*'' then Inr ''3p''
                      else if startswith pui ''-'' then Inr ''5p''
                      else Inl (ValueError ''unexpected UTR symbol'')) of
                  Inl e \<Rightarrow> Inl e
                | Inr side \<Rightarrow>
                    if CHR ''+'' \<in> set (drop 1 pui) then
                      (case unpack2 (split (drop 1 pui) CHR ''+'') of
                         Inl e \<Rightarrow> Inl e
                       | Inr (a, b) \<Rightarrow>
                           Inr (self\<lparr>utr := Some side, utr_position := Some a,
                                     intronic_position := Some b\<rparr>))
                    else
                      (case gdict ''position_intron'' of
                         None \<Rightarrow> Inl TypeError
                       | Some pi \<Rightarrow>
                           if CHR ''-'' \<in> set (drop 1 pi) then
                             (case unpack2 (split (drop 1 pui) CHR ''-'') of
                                Inl e \<Rightarrow> Inl e
                              | Inr (a, b) \<Rightarrow>
                                  Inr (self\<lparr>utr := Some side, utr_position := Some a,
                                            intronic_position := Some (b * - 1)\<rparr>))
                           else Inl (ValueError ''unexpected intronic position separator'')))
           | None \<Rightarrow> Inl (ValueError ''unexpected position format''))))))"

section \<open>Classification and adjacency\<close>

definition is_utr :: "VariantPosition \<Rightarrow> bool" where
  "is_utr self = (if utr self \<noteq> None then True else False)"

definition is_intronic :: "VariantPosition \<Rightarrow> bool" where
  "is_intronic self = (if intronic_position self \<noteq> None then True else False)"

definition is_extended :: "VariantPosition \<Rightarrow> bool" where
  "is_extended self = (is_intronic self \<or> is_utr self)"

text \<open>
  \<^verbatim>\<open>is_adjacent\<close> returns \<^verbatim>\<open>True\<close>, \<^verbatim>\<open>False\<close> or, where the source only has
  \<^verbatim>\<open>pass\<close>, Python's \<^verbatim>\<open>None\<close>: the result is a \<open>bool option\<close>. The subtraction
  raises \<^verbatim>\<open>TypeError\<close> on a \<^verbatim>\<open>position\<close> that is \<^verbatim>\<open>None\<close>.
\<close>

definition is_adjacent :: "VariantPosition \<Rightarrow> VariantPosition \<Rightarrow> error + bool option" where
  "is_adjacent self other =
     (if \<not> is_extended self \<and> \<not> is_extended other then
        (case (position self, position other) of
           (Some p, Some q) \<Rightarrow> if \<bar>p - q\<bar> = 1 then Inr (Some True) else Inr (Some False)
         | _ \<Rightarrow> Inl TypeError)
      else Inr None)"

section \<open>Ordering and equality\<close>

definition intron_lt :: "VariantPosition \<Rightarrow> VariantPosition \<Rightarrow> error + bool" where
  "intron_lt a b =
     (if intronic_position a = intronic_position b then Inr False
      else if intronic_position a = None then py_lt (intronic_position b) (Some 0)
      else if intronic_position b = None then py_lt (intronic_position a) (Some 0)
      else py_lt (intronic_position a) (intronic_position b))"

text \<open>
  \<^verbatim>\<open>__lt__\<close>. A \<^verbatim>\<open>return\<close> of a comparison gives \<open>Some\<close> of its value; the end of
  the function body, reached when neither condition of the last \<^verbatim>\<open>if\<close>/\<^verbatim>\<open>elif\<close>
  holds, gives Python's \<^verbatim>\<open>None\<close>.
\<close>

definition returned :: "error + bool \<Rightarrow> error + bool option" where
  "returned r = (case r of Inl e \<Rightarrow> Inl e | Inr v \<Rightarrow> Inr (Some v))"

definition VariantPosition_lt :: "VariantPosition \<Rightarrow> VariantPosition \<Rightarrow> error + bool option" where
  "VariantPosition_lt self other =
     (if utr self = utr other then
        (if utr self \<noteq> None then
           (if utr_position self \<noteq> utr_position other
            then returned (py_lt (utr_position self) (utr_position other))
            else returned (intron_lt self other))
         else
           (if position self \<noteq> position other
            then returned (py_lt (position self) (position other))
            else returned (intron_lt self other)))
      else
        (if utr self = Some ''5p'' \<or> utr other = Some ''3p'' then Inr (Some True)
         else if utr self = Some ''3p'' \<or> utr other = Some ''5p'' then Inr (Some False)
         else Inr None))"

definition VariantPosition_eq :: "VariantPosition \<Rightarrow> VariantPosition \<Rightarrow> bool" where
  "VariantPosition_eq self other =
     ((position self, intronic_position self, utr self, utr_position self) =
      (position other, intronic_position other, utr other, utr_position other))"

section \<open>The specification's vocabulary\<close>

text \<open>
  The digit run of the grammar: a digit from 1 to 9, then digits.
\<close>

definition is_pos :: "string \<Rightarrow> bool" where
  "is_pos d = (case d of [] \<Rightarrow> False | c # cs \<Rightarrow> c \<in> set ''123456789'' \<and> list_all is_digit cs)"

text \<open>
  The set of strings a pattern denotes, the usual meaning of a regular expression, and
  the patterns that contain no group.
\<close>

primrec lang :: "regex \<Rightarrow> string set" where
  "lang (Cls cs) = {[c] | c. c \<in> set cs}"
| "lang (Cat r1 r2) = {x @ y | x y. x \<in> lang r1 \<and> y \<in> lang r2}"
| "lang (Alt r1 r2) = lang r1 \<union> lang r2"
| "lang (Star_cls cs) = {d. set d \<subseteq> set cs}"
| "lang (Group name r) = lang r"

primrec group_free :: "regex \<Rightarrow> bool" where
  "group_free (Cls cs) = True"
| "group_free (Cat r1 r2) = (group_free r1 \<and> group_free r2)"
| "group_free (Alt r1 r2) = (group_free r1 \<and> group_free r2)"
| "group_free (Star_cls cs) = True"
| "group_free (Group name r) = False"

text \<open>
  The intronic tie-break rule in the specification's words: equal offsets (both absent
  included) give false; with an absent offset on the left, the left position is less iff
  the right offset is negative; with an absent offset on the right, the left position is
  less iff the left offset is negative; two present, unequal offsets are compared as
  numbers.
\<close>

definition tie_break_rule :: "int option \<Rightarrow> int option \<Rightarrow> bool" where
  "tie_break_rule x y =
     (if x = y then False
      else (case (x, y) of
              (None, Some j) \<Rightarrow> j < 0
            | (Some i, None) \<Rightarrow> i < 0
            | (Some i, Some j) \<Rightarrow> i < j
            | (None, None) \<Rightarrow> False))"

text \<open>
  The primary numeric field of the specification: the UTR offset of a UTR position, the
  position of any other.
\<close>

definition primary :: "VariantPosition \<Rightarrow> int option" where
  "primary v = (if utr v \<noteq> None then utr_position v else position v)"

text \<open>
  The specification's order of the UTR sides, \<open>FivePrime < (no UTR) < ThreePrime\<close>, as
  ranks 0, 1 and 2; any other value of the field has rank 3.
\<close>

definition utr_rank :: "string option \<Rightarrow> nat" where
  "utr_rank u =
     (if u = Some ''5p'' then 0
      else if u = None then 1
      else if u = Some ''3p'' then 2
      else 3)"

section \<open>Evaluation and shape of constructed positions\<close>

lemmas init_eval =
  VariantPosition_init_def fullmatch_def pos_extended_def pos_def int_py_def
  decimal_def is_digit_def digit_val_def startswith_def

lemmas lt_eval =
  VariantPosition_lt_def intron_lt_def returned_def

text \<open>
  What every branch of the constructor that returns has set: either a position and no
  UTR field, or a UTR side that is one of the two literals, a UTR offset and no position.
\<close>

lemma init_fields:
  assumes "VariantPosition_init s = Inr v"
  shows "(utr v = None \<and> utr_position v = None \<and> position v \<noteq> None) \<or>
         ((utr v = Some ''3p'' \<or> utr v = Some ''5p'') \<and> utr_position v \<noteq> None \<and>
          position v = None)"
  using assms unfolding VariantPosition_init_def Let_def
  by (auto split: option.splits sum.splits if_splits prod.splits)

lemma init_primary:
  assumes "VariantPosition_init s = Inr v"
  shows "\<exists>x. primary v = Some x"
  using init_fields [OF assms] by (auto simp: primary_def)

lemma intron_lt_rule:
  "intron_lt a b = Inr (tie_break_rule (intronic_position a) (intronic_position b))"
  by (cases "intronic_position a"; cases "intronic_position b")
     (simp_all add: intron_lt_def tie_break_rule_def)

section \<open>The matcher against the denotation of the pattern\<close>

text \<open>
  Every end state that \<open>rmatch\<close> lists has consumed a string of the pattern's language,
  and every such string is consumed along one of the listed ways. So whether a full
  match exists does not depend on the order of backtracking; the order only decides which
  group is set, and the four alternatives of \<^verbatim>\<open>pos_extended\<close> exclude one another.
\<close>

lemma star_self: "(s, g) \<in> set (rmatch (Star_cls cs) (s, g))"
  by (cases s) auto

lemma star_sound:
  "(rest, g') \<in> set (rmatch (Star_cls cs) (s, g)) \<Longrightarrow>
     g' = g \<and> (\<exists>d. s = d @ rest \<and> set d \<subseteq> set cs)"
proof (induction s)
  case Nil
  then show ?case by simp
next
  case (Cons c s)
  show ?case
  proof (cases "c \<in> set cs \<and> (rest, g') \<in> set (rmatch (Star_cls cs) (s, g))")
    case True
    with Cons.IH obtain d where "g' = g" "s = d @ rest" "set d \<subseteq> set cs" by blast
    with True have "c # s = (c # d) @ rest \<and> set (c # d) \<subseteq> set cs" by simp
    with \<open>g' = g\<close> show ?thesis by blast
  next
    case False
    with Cons.prems have "rest = c # s \<and> g' = g" by (auto split: if_splits)
    then show ?thesis by simp
  qed
qed

lemma star_complete:
  "set d \<subseteq> set cs \<Longrightarrow> (rest, g) \<in> set (rmatch (Star_cls cs) (d @ rest, g))"
proof (induction d)
  case Nil
  show ?case using star_self [of rest g cs] by (simp del: rmatch.simps)
next
  case (Cons c d)
  then show ?case by simp
qed

lemma rmatch_sound:
  "(rest, g') \<in> set (rmatch r (s, g)) \<Longrightarrow> \<exists>d \<in> lang r. s = d @ rest"
proof (induction r arbitrary: s g rest g')
  case (Cls cs)
  then show ?case by (auto split: list.splits if_splits)
next
  case (Cat r1 r2)
  from Cat.prems obtain mid gm where
    m1: "(mid, gm) \<in> set (rmatch r1 (s, g))" and m2: "(rest, g') \<in> set (rmatch r2 (mid, gm))"
    by auto
  from Cat.IH(1) [OF m1] obtain d1 where d1: "d1 \<in> lang r1" "s = d1 @ mid" by blast
  from Cat.IH(2) [OF m2] obtain d2 where d2: "d2 \<in> lang r2" "mid = d2 @ rest" by blast
  from d1 d2 have "d1 @ d2 \<in> lang (Cat r1 r2) \<and> s = (d1 @ d2) @ rest" by auto
  then show ?case by blast
next
  case (Alt r1 r2)
  then show ?case by fastforce
next
  case (Star_cls cs)
  from star_sound [OF Star_cls] show ?case by auto
next
  case (Group name r)
  then show ?case by auto
qed

lemma rmatch_complete:
  "d \<in> lang r \<Longrightarrow> \<exists>g'. (rest, g') \<in> set (rmatch r (d @ rest, g))"
proof (induction r arbitrary: d rest g)
  case (Cls cs)
  then show ?case by auto
next
  case (Cat r1 r2)
  then obtain x y where xy: "d = x @ y" "x \<in> lang r1" "y \<in> lang r2" by auto
  from Cat.IH(1) [OF xy(2), of "y @ rest" g] obtain g1 where
    g1: "(y @ rest, g1) \<in> set (rmatch r1 (x @ y @ rest, g))" by blast
  from Cat.IH(2) [OF xy(3), of rest g1] obtain g2 where
    g2: "(rest, g2) \<in> set (rmatch r2 (y @ rest, g1))" by blast
  from g1 g2 xy(1) show ?case by auto
next
  case (Alt r1 r2)
  then show ?case by fastforce
next
  case (Star_cls cs)
  then show ?case using star_complete [of d cs rest g] by auto
next
  case (Group name r)
  from Group.IH [of d rest g] Group.prems obtain g1 where
    "(rest, g1) \<in> set (rmatch r (d @ rest, g))" by auto
  then show ?case by force
qed

lemma rmatch_group_free:
  "group_free r \<Longrightarrow> (rest, g') \<in> set (rmatch r (s, g)) \<Longrightarrow> g' = g"
proof (induction r arbitrary: s g rest g')
  case (Cls cs)
  then show ?case by (auto split: list.splits if_splits)
next
  case (Cat r1 r2)
  from Cat.prems obtain mid gm where
    m1: "(mid, gm) \<in> set (rmatch r1 (s, g))" and m2: "(rest, g') \<in> set (rmatch r2 (mid, gm))"
    by auto
  from Cat.IH(1) [OF _ m1] Cat.IH(2) [OF _ m2] Cat.prems(1) show ?case by simp
next
  case (Alt r1 r2)
  then show ?case by fastforce
next
  case (Star_cls cs)
  from star_sound [OF Star_cls(2)] show ?case by simp
next
  case (Group name r)
  then show ?case by simp
qed

lemma fullmatch_None_iff: "fullmatch r s = None \<longleftrightarrow> s \<notin> lang r"
proof
  assume n: "fullmatch r s = None"
  show "s \<notin> lang r"
  proof
    assume "s \<in> lang r"
    from rmatch_complete [OF this, of "[]" "[]"] obtain g' where
      "([], g') \<in> set (rmatch r (s, []))" by auto
    then have "filter (\<lambda>(rest, g). rest = []) (rmatch r (s, [])) \<noteq> []"
      by (auto simp: filter_empty_conv)
    with n show False by (auto simp: fullmatch_def split: list.splits)
  qed
next
  assume n: "s \<notin> lang r"
  have "filter (\<lambda>(rest, g). rest = []) (rmatch r (s, [])) = []"
  proof (rule ccontr)
    assume "filter (\<lambda>(rest, g). rest = []) (rmatch r (s, [])) \<noteq> []"
    then obtain g' where "([], g') \<in> set (rmatch r (s, []))"
      by (auto simp: filter_empty_conv)
    from rmatch_sound [OF this] n show False by simp
  qed
  then show "fullmatch r s = None" by (simp add: fullmatch_def)
qed

lemma fullmatch_Alt:
  "fullmatch (Alt r1 r2) s = (case fullmatch r1 s of None \<Rightarrow> fullmatch r2 s | Some d \<Rightarrow> Some d)"
  by (cases "filter (\<lambda>(rest, g). rest = []) (rmatch r1 (s, []))")
     (auto simp: fullmatch_def)

lemma fullmatch_Group:
  assumes "group_free r"
  shows "fullmatch (Group name r) s = (if s \<in> lang r then Some [name \<mapsto> s] else None)"
proof (cases "s \<in> lang r")
  case False
  then show ?thesis using fullmatch_None_iff [of "Group name r" s] by simp
next
  case True
  then have "fullmatch (Group name r) s \<noteq> None"
    using fullmatch_None_iff [of "Group name r" s] by simp
  then obtain x xs where
    f: "filter (\<lambda>(rest, g). rest = []) (rmatch (Group name r) (s, [])) = x # xs"
    by (auto simp: fullmatch_def split: list.splits)
  then have "x \<in> set (filter (\<lambda>(rest, g). rest = []) (rmatch (Group name r) (s, [])))"
    by simp
  then obtain g' where x: "x = ([], (name, s) # g')" and "([], g') \<in> set (rmatch r (s, []))"
    by auto
  from rmatch_group_free [OF assms this(2)] x have "x = ([], [(name, s)])" by simp
  with f True show ?thesis by (simp add: fullmatch_def)
qed

lemma group_free_pos: "group_free pos"
  by (simp add: pos_def)

lemma fullmatch_pos_extended:
  "fullmatch pos_extended s =
     (if s \<in> lang pos then Some [''position'' \<mapsto> s]
      else if s \<in> lang (Cat pos (Cat (Cls ''+-'') pos)) then Some [''position_intron'' \<mapsto> s]
      else if s \<in> lang (Cat (Cls ''*-'') pos) then Some [''position_utr'' \<mapsto> s]
      else if s \<in> lang (Cat (Cls ''*-'') (Cat pos (Cat (Cls ''+-'') pos)))
      then Some [''position_utr_intron'' \<mapsto> s]
      else None)"
  unfolding pos_extended_def
  by (simp add: fullmatch_Alt fullmatch_Group group_free_pos del: lang.simps)

lemma is_digit_not_symbol:
  "is_digit c \<Longrightarrow> c \<noteq> CHR ''+'' \<and> c \<noteq> CHR ''-'' \<and> c \<noteq> CHR ''*''"
  by (auto simp: is_digit_def)

lemma nonzero_is_digit: "c \<in> set ''123456789'' \<Longrightarrow> is_digit c"
  by (auto simp: is_digit_def)

lemma is_pos_digits: "is_pos d \<Longrightarrow> d \<noteq> [] \<and> is_digit (hd d) \<and> list_all is_digit d"
  by (cases d) (simp_all add: is_pos_def nonzero_is_digit del: set_simps)

lemma digits_no_symbol:
  assumes "list_all is_digit d"
  shows "CHR ''+'' \<notin> set d \<and> CHR ''-'' \<notin> set d \<and> CHR ''*'' \<notin> set d"
proof -
  have "\<And>c. c \<in> set d \<Longrightarrow> is_digit c" using assms by (simp add: list_all_iff)
  with is_digit_not_symbol show ?thesis by blast
qed

lemma lang_Star: "d \<in> lang (Star_cls cs) \<longleftrightarrow> list_all (\<lambda>c. c \<in> set cs) d"
  by (simp only: lang.simps mem_Collect_eq list_all_iff subset_eq)

lemma is_digit_fun: "is_digit = (\<lambda>c. c \<in> set ''0123456789'')"
  by (rule ext) (simp only: is_digit_def)


lemma lang_Cat: "s \<in> lang (Cat r1 r2) \<longleftrightarrow> (\<exists>x y. s = x @ y \<and> x \<in> lang r1 \<and> y \<in> lang r2)"
  by simp

lemma lang_Cat_Cls:
  "s \<in> lang (Cat (Cls cs) r) \<longleftrightarrow> (\<exists>c d. s = c # d \<and> c \<in> set cs \<and> d \<in> lang r)"
proof
  assume "s \<in> lang (Cat (Cls cs) r)"
  then obtain x y where "s = x @ y" "x \<in> lang (Cls cs)" "y \<in> lang r"
    unfolding lang_Cat by blast
  then show "\<exists>c d. s = c # d \<and> c \<in> set cs \<and> d \<in> lang r" by auto
next
  assume "\<exists>c d. s = c # d \<and> c \<in> set cs \<and> d \<in> lang r"
  then obtain c d where "s = [c] @ d" "[c] \<in> lang (Cls cs)" "d \<in> lang r" by auto
  then show "s \<in> lang (Cat (Cls cs) r)" unfolding lang_Cat by blast
qed

lemma lang_pos: "d \<in> lang pos \<longleftrightarrow> is_pos d"
  unfolding pos_def lang_Cat_Cls lang_Star is_pos_def is_digit_fun
  by (cases d) (simp_all del: set_simps)

lemma sign_class: "c \<in> set ''+-'' \<longleftrightarrow> c = CHR ''+'' \<or> c = CHR ''-''"
  by simp

lemma utr_class: "u \<in> set ''*-'' \<longleftrightarrow> u = CHR ''*'' \<or> u = CHR ''-''"
  by simp

lemma lang_utr:
  "s \<in> lang (Cat (Cls ''*-'') pos) \<longleftrightarrow>
     (\<exists>u d. s = u # d \<and> (u = CHR ''*'' \<or> u = CHR ''-'') \<and> is_pos d)"
  unfolding lang_Cat_Cls lang_pos utr_class by (rule refl)

lemma lang_intron:
  "s \<in> lang (Cat pos (Cat (Cls ''+-'') pos)) \<longleftrightarrow>
     (\<exists>d1 c d2. s = d1 @ c # d2 \<and> is_pos d1 \<and> (c = CHR ''+'' \<or> c = CHR ''-'') \<and> is_pos d2)"
proof
  assume "s \<in> lang (Cat pos (Cat (Cls ''+-'') pos))"
  then obtain x y where xy: "s = x @ y" "x \<in> lang pos" "y \<in> lang (Cat (Cls ''+-'') pos)"
    unfolding lang_Cat [of s] by blast
  from xy(3) obtain c d where "y = c # d" "c \<in> set ''+-''" "d \<in> lang pos"
    unfolding lang_Cat_Cls by blast
  with xy show "\<exists>d1 c d2. s = d1 @ c # d2 \<and> is_pos d1 \<and> (c = CHR ''+'' \<or> c = CHR ''-'') \<and> is_pos d2"
    unfolding lang_pos sign_class by blast
next
  assume "\<exists>d1 c d2. s = d1 @ c # d2 \<and> is_pos d1 \<and> (c = CHR ''+'' \<or> c = CHR ''-'') \<and> is_pos d2"
  then obtain d1 c d2 where
    d: "s = d1 @ c # d2" "d1 \<in> lang pos" "c \<in> set ''+-''" "d2 \<in> lang pos"
    unfolding lang_pos sign_class by blast
  from d(3,4) have "c # d2 \<in> lang (Cat (Cls ''+-'') pos)"
    unfolding lang_Cat_Cls by blast
  with d(1,2) show "s \<in> lang (Cat pos (Cat (Cls ''+-'') pos))"
    unfolding lang_Cat [of s] by blast
qed

lemma lang_utr_intron:
  "s \<in> lang (Cat (Cls ''*-'') (Cat pos (Cat (Cls ''+-'') pos))) \<longleftrightarrow>
     (\<exists>u d1 c d2. s = u # d1 @ c # d2 \<and> (u = CHR ''*'' \<or> u = CHR ''-'') \<and> is_pos d1 \<and>
        (c = CHR ''+'' \<or> c = CHR ''-'') \<and> is_pos d2)"
proof
  assume "s \<in> lang (Cat (Cls ''*-'') (Cat pos (Cat (Cls ''+-'') pos)))"
  then obtain u t where
    ut: "s = u # t" "u \<in> set ''*-''" "t \<in> lang (Cat pos (Cat (Cls ''+-'') pos))"
    unfolding lang_Cat_Cls [of s] by blast
  from ut(3) obtain d1 c d2 where
    "t = d1 @ c # d2" "is_pos d1" "c = CHR ''+'' \<or> c = CHR ''-''" "is_pos d2"
    unfolding lang_intron by blast
  with ut(1,2) show "\<exists>u d1 c d2. s = u # d1 @ c # d2 \<and> (u = CHR ''*'' \<or> u = CHR ''-'') \<and>
      is_pos d1 \<and> (c = CHR ''+'' \<or> c = CHR ''-'') \<and> is_pos d2"
    unfolding utr_class by blast
next
  assume "\<exists>u d1 c d2. s = u # d1 @ c # d2 \<and> (u = CHR ''*'' \<or> u = CHR ''-'') \<and> is_pos d1 \<and>
        (c = CHR ''+'' \<or> c = CHR ''-'') \<and> is_pos d2"
  then obtain u d1 c d2 where
    d: "s = u # d1 @ c # d2" "u \<in> set ''*-''" "is_pos d1" "c = CHR ''+'' \<or> c = CHR ''-''"
       "is_pos d2"
    unfolding utr_class by blast
  from d(3,4,5) have "d1 @ c # d2 \<in> lang (Cat pos (Cat (Cls ''+-'') pos))"
    unfolding lang_intron by blast
  with d(1,2) show "s \<in> lang (Cat (Cls ''*-'') (Cat pos (Cat (Cls ''+-'') pos)))"
    unfolding lang_Cat_Cls [of s] by blast
qed

section \<open>Which group a string of each shape sets\<close>

lemma symbol_not_pos:
  assumes "c = CHR ''+'' \<or> c = CHR ''-'' \<or> c = CHR ''*''" and "c \<in> set s"
  shows "\<not> is_pos s"
proof
  assume "is_pos s"
  then have "list_all is_digit s" by (simp add: is_pos_digits)
  from digits_no_symbol [OF this] assms show False by blast
qed

lemma symbol_first_not_intron:
  assumes "u = CHR ''*'' \<or> u = CHR ''-''"
  shows "u # t \<notin> lang (Cat pos (Cat (Cls ''+-'') pos))"
proof
  assume "u # t \<in> lang (Cat pos (Cat (Cls ''+-'') pos))"
  then obtain d1 c d2 where d: "u # t = d1 @ c # d2" "is_pos d1"
    unfolding lang_intron by blast
  from d(2) have "d1 \<noteq> []" "is_digit (hd d1)" by (simp_all add: is_pos_digits)
  with d(1) have "is_digit u" by (cases d1) simp_all
  with is_digit_not_symbol assms show False by blast
qed

lemma fm_position:
  assumes "is_pos d"
  shows "fullmatch pos_extended d = Some [''position'' \<mapsto> d]"
  using assms by (simp add: fullmatch_pos_extended lang_pos del: lang.simps)

lemma fm_intron:
  assumes "is_pos d1" and "c = CHR ''+'' \<or> c = CHR ''-''" and "is_pos d2"
    and s: "s = d1 @ c # d2"
  shows "fullmatch pos_extended s = Some [''position_intron'' \<mapsto> s]"
proof -
  have "\<not> is_pos s" using symbol_not_pos [of c s] assms(2) s by auto
  moreover have "s \<in> lang (Cat pos (Cat (Cls ''+-'') pos))"
    unfolding lang_intron using assms by blast
  ultimately show ?thesis
    by (simp add: fullmatch_pos_extended lang_pos del: lang.simps)
qed

lemma fm_utr:
  assumes "u = CHR ''*'' \<or> u = CHR ''-''" and "is_pos d" and s: "s = u # d"
  shows "fullmatch pos_extended s = Some [''position_utr'' \<mapsto> s]"
proof -
  have "\<not> is_pos s" using symbol_not_pos [of u s] assms(1) s by auto
  moreover have "s \<notin> lang (Cat pos (Cat (Cls ''+-'') pos))"
    unfolding s by (rule symbol_first_not_intron [OF assms(1)])
  moreover have "s \<in> lang (Cat (Cls ''*-'') pos)"
    unfolding lang_utr using assms by blast
  ultimately show ?thesis
    by (simp add: fullmatch_pos_extended lang_pos del: lang.simps)
qed

lemma fm_utr_intron:
  assumes "u = CHR ''*'' \<or> u = CHR ''-''" and "is_pos d1"
    and "c = CHR ''+'' \<or> c = CHR ''-''" and "is_pos d2" and s: "s = u # d1 @ c # d2"
  shows "fullmatch pos_extended s = Some [''position_utr_intron'' \<mapsto> s]"
proof -
  have "\<not> is_pos s" using symbol_not_pos [of u s] assms(1) s by auto
  moreover have "s \<notin> lang (Cat pos (Cat (Cls ''+-'') pos))"
    unfolding s by (rule symbol_first_not_intron [OF assms(1)])
  moreover have "s \<notin> lang (Cat (Cls ''*-'') pos)"
  proof
    assume "s \<in> lang (Cat (Cls ''*-'') pos)"
    then have "is_pos (d1 @ c # d2)" unfolding lang_utr s by simp
    with symbol_not_pos [of c "d1 @ c # d2"] assms(3) show False by auto
  qed
  moreover have "s \<in> lang (Cat (Cls ''*-'') (Cat pos (Cat (Cls ''+-'') pos)))"
    unfolding lang_utr_intron using assms by blast
  ultimately show ?thesis
    by (simp add: fullmatch_pos_extended lang_pos del: lang.simps)
qed

lemma lang_pos_extended:
  "s \<in> lang pos_extended \<longleftrightarrow>
     s \<in> lang pos \<or> s \<in> lang (Cat pos (Cat (Cls ''+-'') pos)) \<or>
     s \<in> lang (Cat (Cls ''*-'') pos) \<or>
     s \<in> lang (Cat (Cls ''*-'') (Cat pos (Cat (Cls ''+-'') pos)))"
  unfolding pos_extended_def by (simp del: lang.simps(1,2,4))

section \<open>Pieces and numbers\<close>

lemma split_no_sep: "sep \<notin> set d \<Longrightarrow> split d sep = [d]"
  by (induction d) auto

lemma split_at: "sep \<notin> set d1 \<Longrightarrow> split (d1 @ sep # d2) sep = d1 # split d2 sep"
  by (induction d1) auto

lemma int_py_pos: "is_pos d \<Longrightarrow> int_py d = Inr (decimal d)"
  by (simp add: int_py_def is_pos_digits)

lemma pos_no_symbol:
  "is_pos d \<Longrightarrow> CHR ''+'' \<notin> set d \<and> CHR ''-'' \<notin> set d \<and> CHR ''*'' \<notin> set d"
  using digits_no_symbol [of d] is_pos_digits [of d] by blast

section \<open>The constructor on every string\<close>

lemma init_position:
  assumes "is_pos d"
  shows "VariantPosition_init d =
     Inr \<lparr>position = Some (decimal d), intronic_position = None, utr = None, utr_position = None\<rparr>"
  using assms by (simp add: VariantPosition_init_def fm_position int_py_pos)

lemma init_intron_plus:
  assumes "is_pos d1" and "is_pos d2"
  shows "VariantPosition_init (d1 @ CHR ''+'' # d2) =
     Inr \<lparr>position = Some (decimal d1), intronic_position = Some (decimal d2), utr = None,
          utr_position = None\<rparr>"
proof -
  have fm: "fullmatch pos_extended (d1 @ CHR ''+'' # d2) =
      Some [''position_intron'' \<mapsto> d1 @ CHR ''+'' # d2]"
    using assms by (intro fm_intron [where c = "CHR ''+''"]) simp_all
  have sp: "split (d1 @ CHR ''+'' # d2) CHR ''+'' = [d1, d2]"
    using pos_no_symbol [OF assms(1)] pos_no_symbol [OF assms(2)]
    by (simp add: split_at split_no_sep)
  show ?thesis
    by (simp add: VariantPosition_init_def fm sp int_py_pos [OF assms(1)] int_py_pos [OF assms(2)])
qed

lemma init_intron_minus:
  assumes "is_pos d1" and "is_pos d2"
  shows "VariantPosition_init (d1 @ CHR ''-'' # d2) =
     Inr \<lparr>position = Some (decimal d1), intronic_position = Some (- decimal d2), utr = None,
          utr_position = None\<rparr>"
proof -
  have fm: "fullmatch pos_extended (d1 @ CHR ''-'' # d2) =
      Some [''position_intron'' \<mapsto> d1 @ CHR ''-'' # d2]"
    using assms by (intro fm_intron [where c = "CHR ''-''"]) simp_all
  have sp: "split (d1 @ CHR ''-'' # d2) CHR ''-'' = [d1, d2]"
    using pos_no_symbol [OF assms(1)] pos_no_symbol [OF assms(2)]
    by (simp add: split_at split_no_sep)
  have np: "CHR ''+'' \<notin> set d1" "CHR ''+'' \<notin> set d2"
    using pos_no_symbol [OF assms(1)] pos_no_symbol [OF assms(2)] by simp_all
  show ?thesis
    by (simp add: VariantPosition_init_def fm sp np int_py_pos [OF assms(1)] int_py_pos [OF assms(2)])
qed

lemma init_utr:
  assumes "is_pos d"
  shows "VariantPosition_init (CHR ''*'' # d) =
     Inr \<lparr>position = None, intronic_position = None, utr = Some ''3p'',
          utr_position = Some (decimal d)\<rparr>"
    and "VariantPosition_init (CHR ''-'' # d) =
     Inr \<lparr>position = None, intronic_position = None, utr = Some ''5p'',
          utr_position = Some (decimal d)\<rparr>"
proof -
  have "fullmatch pos_extended (CHR ''*'' # d) = Some [''position_utr'' \<mapsto> CHR ''*'' # d]"
    using assms by (intro fm_utr [where u = "CHR ''*''"]) simp_all
  then show "VariantPosition_init (CHR ''*'' # d) =
     Inr \<lparr>position = None, intronic_position = None, utr = Some ''3p'',
          utr_position = Some (decimal d)\<rparr>"
    by (simp add: VariantPosition_init_def startswith_def int_py_pos [OF assms])
  have "fullmatch pos_extended (CHR ''-'' # d) = Some [''position_utr'' \<mapsto> CHR ''-'' # d]"
    using assms by (intro fm_utr [where u = "CHR ''-''"]) simp_all
  then show "VariantPosition_init (CHR ''-'' # d) =
     Inr \<lparr>position = None, intronic_position = None, utr = Some ''5p'',
          utr_position = Some (decimal d)\<rparr>"
    by (simp add: VariantPosition_init_def startswith_def int_py_pos [OF assms])
qed

lemma init_utr_intron_plus:
  assumes "u = CHR ''*'' \<or> u = CHR ''-''" and "is_pos d1" and "is_pos d2"
  shows "VariantPosition_init (u # d1 @ CHR ''+'' # d2) =
     Inr \<lparr>position = None, intronic_position = Some (decimal d2),
          utr = Some (if u = CHR ''*'' then ''3p'' else ''5p''),
          utr_position = Some (decimal d1)\<rparr>"
proof -
  have fm: "fullmatch pos_extended (u # d1 @ CHR ''+'' # d2) =
      Some [''position_utr_intron'' \<mapsto> u # d1 @ CHR ''+'' # d2]"
    using assms by (intro fm_utr_intron [where c = "CHR ''+''"]) simp_all
  have sp: "split (d1 @ CHR ''+'' # d2) CHR ''+'' = [d1, d2]"
    using pos_no_symbol [OF assms(2)] pos_no_symbol [OF assms(3)]
    by (simp add: split_at split_no_sep)
  from assms(1) show ?thesis
    by (auto simp: VariantPosition_init_def fm sp startswith_def int_py_pos [OF assms(2)] int_py_pos [OF assms(3)])
qed

lemma init_utr_intron_minus:
  assumes "u = CHR ''*'' \<or> u = CHR ''-''" and "is_pos d1" and "is_pos d2"
  shows "VariantPosition_init (u # d1 @ CHR ''-'' # d2) =
     Inl TypeError"
proof -
  have fm: "fullmatch pos_extended (u # d1 @ CHR ''-'' # d2) =
      Some [''position_utr_intron'' \<mapsto> u # d1 @ CHR ''-'' # d2]"
    using assms by (intro fm_utr_intron [where c = "CHR ''-''"]) simp_all
  have np: "CHR ''+'' \<notin> set d1" "CHR ''+'' \<notin> set d2"
    using pos_no_symbol [OF assms(2)] pos_no_symbol [OF assms(3)] by simp_all
  from assms(1) show ?thesis
    by (auto simp: VariantPosition_init_def fm np startswith_def)
qed

lemma init_no_match:
  assumes "s \<notin> lang pos_extended"
  shows "VariantPosition_init s =
     Inl (ValueError (''invalid variant position string '' @ [CHR 0x27] @ s @ [CHR 0x27]))"
  using assms fullmatch_None_iff [of pos_extended s]
  by (simp add: VariantPosition_init_def)

text \<open>
  Every string is of one of the four shapes or matches nothing; so the seven lemmas
  above give the constructor's result on every string, the only numbers it converts are
  digit runs, and the \<^verbatim>\<open>raise\<close> statements marked as not covered are never reached.
\<close>

lemma init_cases:
  "s \<notin> lang pos_extended \<or>
   is_pos s \<or>
   (\<exists>d1 c d2. s = d1 @ c # d2 \<and> is_pos d1 \<and> (c = CHR ''+'' \<or> c = CHR ''-'') \<and> is_pos d2) \<or>
   (\<exists>u d. s = u # d \<and> (u = CHR ''*'' \<or> u = CHR ''-'') \<and> is_pos d) \<or>
   (\<exists>u d1 c d2. s = u # d1 @ c # d2 \<and> (u = CHR ''*'' \<or> u = CHR ''-'') \<and> is_pos d1 \<and>
      (c = CHR ''+'' \<or> c = CHR ''-'') \<and> is_pos d2)"
  unfolding lang_pos_extended lang_pos lang_intron lang_utr lang_utr_intron by blast

text \<open>
  Hence three outcomes and no other: a position, the \<^verbatim>\<open>ValueError\<close> that quotes the
  input, or the \<^verbatim>\<open>TypeError\<close> of the UTR-intronic shape with the sign \<^verbatim>\<open>-\<close>.
\<close>

lemma init_outcomes:
  "(\<exists>v. VariantPosition_init s = Inr v) \<or>
   VariantPosition_init s =
     Inl (ValueError (''invalid variant position string '' @ [CHR 0x27] @ s @ [CHR 0x27])) \<or>
   VariantPosition_init s = Inl TypeError"
  using init_cases [of s]
proof (elim disjE exE conjE)
  assume "s \<notin> lang pos_extended"
  from init_no_match [OF this] show ?thesis by (rule disjI2 [OF disjI1])
next
  assume "is_pos s"
  from init_position [OF this] show ?thesis by (intro disjI1 exI)
next
  fix d1 c d2
  assume "s = d1 @ c # d2" "is_pos d1" "is_pos d2" "c = CHR ''+''"
  with init_intron_plus [of d1 d2] show ?thesis by (intro disjI1 exI) simp
next
  fix d1 c d2
  assume "s = d1 @ c # d2" "is_pos d1" "is_pos d2" "c = CHR ''-''"
  with init_intron_minus [of d1 d2] show ?thesis by (intro disjI1 exI) simp
next
  fix u d
  assume "s = u # d" "is_pos d" "u = CHR ''*''"
  with init_utr(1) [of d] show ?thesis by (intro disjI1 exI) simp
next
  fix u d
  assume "s = u # d" "is_pos d" "u = CHR ''-''"
  with init_utr(2) [of d] show ?thesis by (intro disjI1 exI) simp
next
  fix u d1 c d2
  assume "s = u # d1 @ c # d2" "is_pos d1" "is_pos d2" "u = CHR ''*''" "c = CHR ''+''"
  with init_utr_intron_plus [of u d1 d2] show ?thesis by (intro disjI1 exI) simp
next
  fix u d1 c d2
  assume "s = u # d1 @ c # d2" "is_pos d1" "is_pos d2" "u = CHR ''*''" "c = CHR ''-''"
  with init_utr_intron_minus [of u d1 d2] show ?thesis by (intro disjI2) simp
next
  fix u d1 c d2
  assume "s = u # d1 @ c # d2" "is_pos d1" "is_pos d2" "u = CHR ''-''" "c = CHR ''+''"
  with init_utr_intron_plus [of u d1 d2] show ?thesis by (intro disjI1 exI) simp
next
  fix u d1 c d2
  assume "s = u # d1 @ c # d2" "is_pos d1" "is_pos d2" "u = CHR ''-''" "c = CHR ''-''"
  with init_utr_intron_minus [of u d1 d2] show ?thesis by (intro disjI2) simp
qed

section \<open>Parsing\<close>

text \<open>
  C1. Parsing \<^verbatim>\<open>"*10-5"\<close> should yield the 3' UTR side, UTR offset 10 and intronic
  offset -5. The constructor raises \<^verbatim>\<open>TypeError\<close> instead: the string has no
  \<^verbatim>\<open>+\<close>, so the \<^verbatim>\<open>elif\<close> subscripts the group \<^verbatim>\<open>position_intron\<close>, which is
  \<^verbatim>\<open>None\<close> in this branch. With \<^verbatim>\<open>+\<close> in place of \<^verbatim>\<open>-\<close> the three fields
  are set as described.
\<close>

theorem utr_intron_minus_TypeError:
  "VariantPosition_init ''*10-5'' = Inl TypeError \<and>
   VariantPosition_init ''*10+5'' =
     Inr \<lparr>position = None, intronic_position = Some 5, utr = Some ''3p'', utr_position = Some 10\<rparr>"
  by (simp add: init_eval)

text \<open>
  C2. Parsing should fail with the one \<^verbatim>\<open>ValueError\<close> that carries the input, or
  succeed. On \<^verbatim>\<open>"-10-5"\<close>, a string of the UTR-intronic shape, it fails with
  \<^verbatim>\<open>TypeError\<close>, which is no \<^verbatim>\<open>ValueError\<close> at all.
\<close>

theorem init_other_failure_mode:
  "VariantPosition_init ''-10-5'' = Inl TypeError \<and>
   (\<forall>msg. VariantPosition_init ''-10-5'' \<noteq> Inl (ValueError msg)) \<and>
   (\<forall>v. VariantPosition_init ''-10-5'' \<noteq> Inr v)"
  by (simp add: init_eval)

text \<open>
  C7. Each of the strings \<^verbatim>\<open>""\<close>, \<^verbatim>\<open>"12a"\<close>, \<^verbatim>\<open>"0"\<close>, \<^verbatim>\<open>"+5"\<close>,
  \<^verbatim>\<open>"12++5"\<close> and \<^verbatim>\<open>"**3"\<close> fails to parse, with the \<^verbatim>\<open>ValueError\<close> whose
  message quotes the string.
\<close>

theorem grammar_rejection:
  "VariantPosition_init '''' =
     Inl (ValueError (''invalid variant position string '' @ [CHR 0x27] @ '''' @ [CHR 0x27])) \<and>
   VariantPosition_init ''12a'' =
     Inl (ValueError (''invalid variant position string '' @ [CHR 0x27] @ ''12a'' @ [CHR 0x27])) \<and>
   VariantPosition_init ''0'' =
     Inl (ValueError (''invalid variant position string '' @ [CHR 0x27] @ ''0'' @ [CHR 0x27])) \<and>
   VariantPosition_init ''+5'' =
     Inl (ValueError (''invalid variant position string '' @ [CHR 0x27] @ ''+5'' @ [CHR 0x27])) \<and>
   VariantPosition_init ''12++5'' =
     Inl (ValueError (''invalid variant position string '' @ [CHR 0x27] @ ''12++5'' @ [CHR 0x27])) \<and>
   VariantPosition_init ''**3'' =
     Inl (ValueError (''invalid variant position string '' @ [CHR 0x27] @ ''**3'' @ [CHR 0x27]))"
  by (simp add: init_eval)

text \<open>
  C8. A constructed position has one of four combinations of populated fields: the
  position alone; the position and the intronic offset; the UTR side and the UTR offset;
  the UTR side, the UTR offset and the intronic offset.
\<close>

theorem field_combinations:
  assumes "VariantPosition_init s = Inr v"
  shows "(position v \<noteq> None \<and> intronic_position v = None \<and> utr v = None \<and> utr_position v = None) \<or>
         (position v \<noteq> None \<and> intronic_position v \<noteq> None \<and> utr v = None \<and> utr_position v = None) \<or>
         (position v = None \<and> intronic_position v = None \<and> utr v \<noteq> None \<and> utr_position v \<noteq> None) \<or>
         (position v = None \<and> intronic_position v \<noteq> None \<and> utr v \<noteq> None \<and> utr_position v \<noteq> None)"
  using init_fields [OF assms] by auto

theorem field_combinations_witness:
  "VariantPosition_init ''-10+5'' =
     Inr \<lparr>position = None, intronic_position = Some 5, utr = Some ''5p'', utr_position = Some 10\<rparr> \<and>
   ((None :: int option) = None \<and> Some (5 :: int) \<noteq> None \<and> Some ''5p'' \<noteq> None \<and>
    Some (10 :: int) \<noteq> None)"
proof -
  have h: "VariantPosition_init ''-10+5'' =
     Inr \<lparr>position = None, intronic_position = Some 5, utr = Some ''5p'', utr_position = Some 10\<rparr>"
    by (simp add: init_eval)
  show ?thesis using h field_combinations [OF h] by simp
qed

section \<open>Adjacency\<close>

text \<open>
  C9. When at least one of two positions is extended, \<^verbatim>\<open>is_adjacent\<close> raises nothing
  and returns \<^verbatim>\<open>None\<close>, which is neither \<^verbatim>\<open>True\<close> nor \<^verbatim>\<open>False\<close>. This holds
  for any two values of the class, constructed ones among them.
\<close>

theorem is_adjacent_extended:
  assumes "is_extended a \<or> is_extended b"
  shows "is_adjacent a b = Inr None \<and>
         is_adjacent a b \<noteq> Inr (Some True) \<and> is_adjacent a b \<noteq> Inr (Some False)"
  using assms by (auto simp: is_adjacent_def)

theorem is_adjacent_extended_witness:
  "VariantPosition_init ''88+7'' =
     Inr \<lparr>position = Some 88, intronic_position = Some 7, utr = None, utr_position = None\<rparr> \<and>
   VariantPosition_init ''89'' =
     Inr \<lparr>position = Some 89, intronic_position = None, utr = None, utr_position = None\<rparr> \<and>
   is_extended \<lparr>position = Some 88, intronic_position = Some 7, utr = None, utr_position = None\<rparr> \<and>
   is_adjacent \<lparr>position = Some 88, intronic_position = Some 7, utr = None, utr_position = None\<rparr>
               \<lparr>position = Some 89, intronic_position = None, utr = None, utr_position = None\<rparr>
     = Inr None"
proof -
  have h: "is_extended \<lparr>position = Some 88, intronic_position = Some 7, utr = None,
                        utr_position = None\<rparr>"
    by (simp add: is_extended_def is_intronic_def)
  from h have "is_extended \<lparr>position = Some 88, intronic_position = Some 7, utr = None,
                        utr_position = None\<rparr> \<or>
     is_extended \<lparr>position = Some 89, intronic_position = None, utr = None, utr_position = None\<rparr>"
    by (rule disjI1)
  from is_adjacent_extended [OF this] h show ?thesis
    by (simp add: init_eval)
qed

section \<open>Ordering\<close>

text \<open>
  C3. \<^verbatim>\<open>__lt__\<close> with \<^verbatim>\<open>__eq__\<close> should be a strict total order on constructed
  positions. It is not asymmetric: \<^verbatim>\<open>"88"\<close> is less than \<^verbatim>\<open>"88-7"\<close> and
  \<^verbatim>\<open>"88-7"\<close> is less than \<^verbatim>\<open>"88"\<close>. It is not trichotomous either: of
  \<^verbatim>\<open>"88"\<close> and \<^verbatim>\<open>"88+7"\<close> neither is less than the other, and they are not
  equal.
\<close>

theorem lt_not_strict_total_order:
  "VariantPosition_init ''88'' =
     Inr \<lparr>position = Some 88, intronic_position = None, utr = None, utr_position = None\<rparr> \<and>
   VariantPosition_init ''88-7'' =
     Inr \<lparr>position = Some 88, intronic_position = Some (- 7), utr = None, utr_position = None\<rparr> \<and>
   VariantPosition_init ''88+7'' =
     Inr \<lparr>position = Some 88, intronic_position = Some 7, utr = None, utr_position = None\<rparr> \<and>
   VariantPosition_lt
     \<lparr>position = Some 88, intronic_position = None, utr = None, utr_position = None\<rparr>
     \<lparr>position = Some 88, intronic_position = Some (- 7), utr = None, utr_position = None\<rparr>
     = Inr (Some True) \<and>
   VariantPosition_lt
     \<lparr>position = Some 88, intronic_position = Some (- 7), utr = None, utr_position = None\<rparr>
     \<lparr>position = Some 88, intronic_position = None, utr = None, utr_position = None\<rparr>
     = Inr (Some True) \<and>
   VariantPosition_lt
     \<lparr>position = Some 88, intronic_position = None, utr = None, utr_position = None\<rparr>
     \<lparr>position = Some 88, intronic_position = Some 7, utr = None, utr_position = None\<rparr>
     = Inr (Some False) \<and>
   VariantPosition_lt
     \<lparr>position = Some 88, intronic_position = Some 7, utr = None, utr_position = None\<rparr>
     \<lparr>position = Some 88, intronic_position = None, utr = None, utr_position = None\<rparr>
     = Inr (Some False) \<and>
   \<not> VariantPosition_eq
     \<lparr>position = Some 88, intronic_position = None, utr = None, utr_position = None\<rparr>
     \<lparr>position = Some 88, intronic_position = Some 7, utr = None, utr_position = None\<rparr>"
  by (simp add: init_eval lt_eval VariantPosition_eq_def)

text \<open>
  C4. The bare boundary \<^verbatim>\<open>"88"\<close> should lie strictly between \<^verbatim>\<open>"88-7"\<close> and
  \<^verbatim>\<open>"88+7"\<close>. The first half holds, \<^verbatim>\<open>"88-7" < "88"\<close> is true; the second does
  not, \<^verbatim>\<open>"88" < "88+7"\<close> is false.
\<close>

theorem boundary_not_below_positive_offset:
  "VariantPosition_init ''88-7'' =
     Inr \<lparr>position = Some 88, intronic_position = Some (- 7), utr = None, utr_position = None\<rparr> \<and>
   VariantPosition_init ''88'' =
     Inr \<lparr>position = Some 88, intronic_position = None, utr = None, utr_position = None\<rparr> \<and>
   VariantPosition_init ''88+7'' =
     Inr \<lparr>position = Some 88, intronic_position = Some 7, utr = None, utr_position = None\<rparr> \<and>
   VariantPosition_lt
     \<lparr>position = Some 88, intronic_position = Some (- 7), utr = None, utr_position = None\<rparr>
     \<lparr>position = Some 88, intronic_position = None, utr = None, utr_position = None\<rparr>
     = Inr (Some True) \<and>
   VariantPosition_lt
     \<lparr>position = Some 88, intronic_position = None, utr = None, utr_position = None\<rparr>
     \<lparr>position = Some 88, intronic_position = Some 7, utr = None, utr_position = None\<rparr>
     = Inr (Some False)"
  by (simp add: init_eval lt_eval)

text \<open>
  C5. For two constructed positions with the same UTR side, \<^verbatim>\<open>intron_lt\<close> computes
  the tie-break rule as the specification words it, and \<^verbatim>\<open>__lt__\<close> returns the
  rule's answer exactly when the primary numeric fields are equal; when they differ it
  returns their comparison, and the rule plays no part.
\<close>

theorem intronic_tie_break:
  assumes "VariantPosition_init s = Inr a" and "VariantPosition_init t = Inr b"
    and "utr a = utr b"
  shows "intron_lt a b = Inr (tie_break_rule (intronic_position a) (intronic_position b)) \<and>
         (\<exists>x y. primary a = Some x \<and> primary b = Some y \<and>
            VariantPosition_lt a b =
              Inr (Some (if x = y
                         then tie_break_rule (intronic_position a) (intronic_position b)
                         else x < y)))"
proof -
  from init_primary [OF assms(1)] obtain x where x: "primary a = Some x" by blast
  from init_primary [OF assms(2)] obtain y where y: "primary b = Some y" by blast
  have "VariantPosition_lt a b =
          Inr (Some (if x = y
                     then tie_break_rule (intronic_position a) (intronic_position b)
                     else x < y))"
    using x y assms(3)
    by (auto simp: VariantPosition_lt_def primary_def returned_def intron_lt_rule
             split: if_splits)
  with x y show ?thesis by (simp add: intron_lt_rule)
qed

theorem intronic_tie_break_witness:
  "VariantPosition_init ''*12+3'' =
     Inr \<lparr>position = None, intronic_position = Some 3, utr = Some ''3p'', utr_position = Some 12\<rparr> \<and>
   VariantPosition_init ''*12'' =
     Inr \<lparr>position = None, intronic_position = None, utr = Some ''3p'', utr_position = Some 12\<rparr> \<and>
   intron_lt
     \<lparr>position = None, intronic_position = Some 3, utr = Some ''3p'', utr_position = Some 12\<rparr>
     \<lparr>position = None, intronic_position = None, utr = Some ''3p'', utr_position = Some 12\<rparr>
     = Inr False \<and>
   VariantPosition_lt
     \<lparr>position = None, intronic_position = Some 3, utr = Some ''3p'', utr_position = Some 12\<rparr>
     \<lparr>position = None, intronic_position = None, utr = Some ''3p'', utr_position = Some 12\<rparr>
     = Inr (Some False)"
proof -
  have a: "VariantPosition_init ''*12+3'' =
     Inr \<lparr>position = None, intronic_position = Some 3, utr = Some ''3p'', utr_position = Some 12\<rparr>"
    by (simp add: init_eval)
  have b: "VariantPosition_init ''*12'' =
     Inr \<lparr>position = None, intronic_position = None, utr = Some ''3p'', utr_position = Some 12\<rparr>"
    by (simp add: init_eval)
  from intronic_tie_break [OF a b] a b show ?thesis
    by (simp add: tie_break_rule_def primary_def)
qed

text \<open>
  C6. Two constructed positions whose UTR sides differ are ordered by the side alone,
  \<open>FivePrime < (no UTR) < ThreePrime\<close>: \<^verbatim>\<open>__lt__\<close> returns whether the rank of the
  left side is below the rank of the right side, and both sides are among the three.
\<close>

theorem utr_side_order:
  assumes "VariantPosition_init s = Inr a" and "VariantPosition_init t = Inr b"
    and "utr a \<noteq> utr b"
  shows "VariantPosition_lt a b = Inr (Some (utr_rank (utr a) < utr_rank (utr b))) \<and>
         utr_rank (utr a) \<le> 2 \<and> utr_rank (utr b) \<le> 2"
  using init_fields [OF assms(1)] init_fields [OF assms(2)] assms(3)
  by (auto simp: VariantPosition_lt_def utr_rank_def)

theorem utr_side_order_witness:
  "VariantPosition_init ''-12'' =
     Inr \<lparr>position = None, intronic_position = None, utr = Some ''5p'', utr_position = Some 12\<rparr> \<and>
   VariantPosition_init ''5'' =
     Inr \<lparr>position = Some 5, intronic_position = None, utr = None, utr_position = None\<rparr> \<and>
   Some ''5p'' \<noteq> (None :: string option) \<and>
   VariantPosition_lt
     \<lparr>position = None, intronic_position = None, utr = Some ''5p'', utr_position = Some 12\<rparr>
     \<lparr>position = Some 5, intronic_position = None, utr = None, utr_position = None\<rparr>
     = Inr (Some True)"
proof -
  have a: "VariantPosition_init ''-12'' =
     Inr \<lparr>position = None, intronic_position = None, utr = Some ''5p'', utr_position = Some 12\<rparr>"
    by (simp add: init_eval)
  have b: "VariantPosition_init ''5'' =
     Inr \<lparr>position = Some 5, intronic_position = None, utr = None, utr_position = None\<rparr>"
    by (simp add: init_eval)
  from utr_side_order [OF a b] a b show ?thesis
    by (simp add: utr_rank_def)
qed

text \<open>
  C10. On two constructed positions \<^verbatim>\<open>__lt__\<close> raises nothing and returns
  \<^verbatim>\<open>True\<close> or \<^verbatim>\<open>False\<close>: it never reaches the end of its body, where it would
  return \<^verbatim>\<open>None\<close>.
\<close>

theorem lt_returns_bool:
  assumes "VariantPosition_init s = Inr a" and "VariantPosition_init t = Inr b"
  shows "VariantPosition_lt a b = Inr (Some True) \<or> VariantPosition_lt a b = Inr (Some False)"
proof (cases "utr a = utr b")
  case True
  from init_primary [OF assms(1)] obtain x where x: "primary a = Some x" by blast
  from init_primary [OF assms(2)] obtain y where y: "primary b = Some y" by blast
  show ?thesis using True x y
    by (auto simp: VariantPosition_lt_def primary_def returned_def intron_lt_rule
             split: if_splits)
next
  case False
  then show ?thesis
    using init_fields [OF assms(1)] init_fields [OF assms(2)]
    by (auto simp: VariantPosition_lt_def)
qed

theorem lt_returns_bool_witness:
  "VariantPosition_init ''*3'' =
     Inr \<lparr>position = None, intronic_position = None, utr = Some ''3p'', utr_position = Some 3\<rparr> \<and>
   VariantPosition_init ''-3'' =
     Inr \<lparr>position = None, intronic_position = None, utr = Some ''5p'', utr_position = Some 3\<rparr> \<and>
   (VariantPosition_lt
      \<lparr>position = None, intronic_position = None, utr = Some ''3p'', utr_position = Some 3\<rparr>
      \<lparr>position = None, intronic_position = None, utr = Some ''5p'', utr_position = Some 3\<rparr>
      = Inr (Some True) \<or>
    VariantPosition_lt
      \<lparr>position = None, intronic_position = None, utr = Some ''3p'', utr_position = Some 3\<rparr>
      \<lparr>position = None, intronic_position = None, utr = Some ''5p'', utr_position = Some 3\<rparr>
      = Inr (Some False))"
proof -
  have a: "VariantPosition_init ''*3'' =
     Inr \<lparr>position = None, intronic_position = None, utr = Some ''3p'', utr_position = Some 3\<rparr>"
    by (simp add: init_eval)
  have b: "VariantPosition_init ''-3'' =
     Inr \<lparr>position = None, intronic_position = None, utr = Some ''5p'', utr_position = Some 3\<rparr>"
    by (simp add: init_eval)
  from lt_returns_bool [OF a b] a b show ?thesis by simp
qed

end
